theory Spec2Isabelle
  imports Main "HOL-Library.Char_ord" "HOL-Library.List_Lexorder"
begin

section \<open>JavaScript values and objects\<close>

text \<open>
  The storage providers and the client wrapper of the TypeScript SDK handle plain
  JavaScript objects whose static types are erased at run time. An object is a finite
  set of own properties, modelled as a map from property names to values. Only integral
  values of the JavaScript \<open>number\<close> type are modelled; the code performs no arithmetic
  on them apart from the index counter.
\<close>

type_synonym number = int

datatype jsval =
    JUndefined
  | JNull
  | JBool bool
  | JNum number
  | JStr string
  | JObj "string \<Rightarrow> jsval option"

type_synonym jsobj = "string \<rightharpoonup> jsval"

datatype error =
    DataError
  | BackendError string
  | NoMnemonic
  | InvalidSeed
  | IndexOutOfRange
  | UnknownSwapStatus string

section \<open>A Dexie table with an inbound primary key\<close>

text \<open>
  Both databases declare one table whose schema is the string \<open>"id"\<close>: the primary key
  of a stored object is the value of its own \<open>id\<close> property. IndexedDB accepts numbers
  and strings as keys (dates, binary data and arrays do not occur in \<open>jsval\<close>) and orders
  every number before every string. A table is kept as an association list in
  ascending key order, which is the order in which \<open>toArray\<close> and \<open>primaryKeys\<close>
  deliver their results.
\<close>

datatype idb_key = KNum number | KStr string

fun key_lt :: "idb_key \<Rightarrow> idb_key \<Rightarrow> bool" where
  "key_lt (KNum a) (KNum b) = (a < b)"
| "key_lt (KNum a) (KStr b) = True"
| "key_lt (KStr a) (KNum b) = False"
| "key_lt (KStr a) (KStr b) = (a < b)"

fun to_key :: "jsval \<Rightarrow> idb_key option" where
  "to_key (JNum n) = Some (KNum n)"
| "to_key (JStr s) = Some (KStr s)"
| "to_key _ = None"

fun key_val :: "idb_key \<Rightarrow> jsval" where
  "key_val (KNum n) = JNum n"
| "key_val (KStr s) = JStr s"

type_synonym 'v table = "(idb_key \<times> 'v) list"

fun tbl_put :: "idb_key \<Rightarrow> 'v \<Rightarrow> 'v table \<Rightarrow> 'v table" where
  "tbl_put k v [] = [(k, v)]"
| "tbl_put k v ((k', v') # t) =
     (if k = k' then (k, v) # t
      else if key_lt k k' then (k, v) # (k', v') # t
      else (k', v') # tbl_put k v t)"

definition tbl_get :: "idb_key \<Rightarrow> 'v table \<Rightarrow> 'v option" where
  "tbl_get k t = map_of t k"

definition tbl_delete :: "idb_key \<Rightarrow> 'v table \<Rightarrow> 'v table" where
  "tbl_delete k t = filter (\<lambda>kv. fst kv \<noteq> k) t"

definition tbl_toArray :: "'v table \<Rightarrow> 'v list" where
  "tbl_toArray t = map snd t"

definition tbl_primaryKeys :: "'v table \<Rightarrow> idb_key list" where
  "tbl_primaryKeys t = map fst t"

definition tbl_clear :: "'v table \<Rightarrow> 'v table" where
  "tbl_clear t = []"

text \<open>
  \<open>Table.put\<close> on a table of JavaScript objects: the key is read from the object's
  \<open>id\<close> property, and the request is rejected with a \<open>DataError\<close> when that property
  is missing or is not a valid key.
\<close>

definition table_put :: "jsobj \<Rightarrow> jsobj table \<Rightarrow> error + jsobj table" where
  "table_put obj t =
     (case obj ''id'' of
        None \<Rightarrow> Inl DataError
      | Some v \<Rightarrow> (case to_key v of
                     None \<Rightarrow> Inl DataError
                   | Some k \<Rightarrow> Inr (tbl_put k obj t)))"

section \<open>DexieSwapStorageProvider\<close>

text \<open>
  The provider's only state is the \<open>swaps\<close> table. \<open>store\<close> builds the object
  \<open>{ id: swapId, ...data }\<close>: the spread comes second, so an \<open>id\<close> property of \<open>data\<close>
  replaces the swap id. \<open>get\<close> returns the stored object without its \<open>id\<close> property;
  \<open>getAll\<close> returns the stored objects as they are.
\<close>

type_synonym swaps_db = "jsobj table"

definition DexieSwapStorageProvider_get :: "string \<Rightarrow> swaps_db \<Rightarrow> jsobj option" where
  "DexieSwapStorageProvider_get swapId db =
     (case tbl_get (KStr swapId) db of
        None \<Rightarrow> None
      | Some record \<Rightarrow> Some (record(''id'' := None)))"

definition DexieSwapStorageProvider_store ::
  "string \<Rightarrow> jsobj \<Rightarrow> swaps_db \<Rightarrow> error + swaps_db" where
  "DexieSwapStorageProvider_store swapId data db =
     table_put ([''id'' \<mapsto> JStr swapId] ++ data) db"

definition DexieSwapStorageProvider_delete :: "string \<Rightarrow> swaps_db \<Rightarrow> swaps_db" where
  "DexieSwapStorageProvider_delete swapId db = tbl_delete (KStr swapId) db"

definition DexieSwapStorageProvider_list :: "swaps_db \<Rightarrow> idb_key list" where
  "DexieSwapStorageProvider_list db = tbl_primaryKeys db"

definition DexieSwapStorageProvider_clear :: "swaps_db \<Rightarrow> swaps_db" where
  "DexieSwapStorageProvider_clear db = tbl_clear db"

definition DexieSwapStorageProvider_getAll :: "swaps_db \<Rightarrow> jsobj list" where
  "DexieSwapStorageProvider_getAll db = tbl_toArray db"

subsection \<open>Reachable stores\<close>

text \<open>
  The states the \<open>swaps\<close> table can reach are those produced from the empty table by
  \<open>store\<close> and \<open>delete\<close> calls. A rejected \<open>put\<close> leaves the table as it was.
\<close>

datatype swap_op = Store string jsobj | Delete string

fun apply_op :: "swap_op \<Rightarrow> swaps_db \<Rightarrow> swaps_db" where
  "apply_op (Store swapId data) db =
     (case DexieSwapStorageProvider_store swapId data db of
        Inl e \<Rightarrow> db
      | Inr db' \<Rightarrow> db')"
| "apply_op (Delete swapId) db = DexieSwapStorageProvider_delete swapId db"

fun run_ops :: "swap_op list \<Rightarrow> swaps_db \<Rightarrow> swaps_db" where
  "run_ops [] db = db"
| "run_ops (op # ops) db = run_ops ops (apply_op op db)"

definition keys_ascending :: "'v table \<Rightarrow> bool" where
  "keys_ascending t = sorted_wrt key_lt (map fst t)"

definition ids_inbound :: "swaps_db \<Rightarrow> bool" where
  "ids_inbound db = list_all (\<lambda>kv. snd kv ''id'' = Some (key_val (fst kv))) db"


text \<open>Sample records of the shape \<open>ExtendedSwapStorageData\<close> declares.\<close>

definition sample_data :: jsobj where
  "sample_data =
     [''response'' \<mapsto> JObj [''id'' \<mapsto> JStr ''a'', ''status'' \<mapsto> JStr ''pending''],
      ''swap_params'' \<mapsto> JObj [''preimage'' \<mapsto> JStr ''00'', ''key_index'' \<mapsto> JNum 0]]"

definition sample_update :: jsobj where
  "sample_update =
     [''response'' \<mapsto> JObj [''id'' \<mapsto> JStr ''a'', ''status'' \<mapsto> JStr ''serverfunded''],
      ''swap_params'' \<mapsto> JObj [''preimage'' \<mapsto> JStr ''00'', ''key_index'' \<mapsto> JNum 0]]"


section \<open>DexieWalletStorageProvider\<close>

text \<open>
  The wallet database holds at most one record, stored under the fixed key
  \<open>"wallet"\<close>. Each setter reads the existing record, if any, and writes a complete
  new record that carries the other field over.
\<close>

record WalletRecord =
  record_id :: string
  mnemonic :: "string option"
  keyIndex :: number

type_synonym wallet_db = "WalletRecord table"

definition WALLET_ID :: string where
  "WALLET_ID = ''wallet''"

definition wallet_put :: "WalletRecord \<Rightarrow> wallet_db \<Rightarrow> wallet_db" where
  "wallet_put r db = tbl_put (KStr (record_id r)) r db"

definition DexieWalletStorageProvider_getMnemonic :: "wallet_db \<Rightarrow> string option" where
  "DexieWalletStorageProvider_getMnemonic db =
     (case tbl_get (KStr WALLET_ID) db of
        None \<Rightarrow> None
      | Some record \<Rightarrow> mnemonic record)"

definition DexieWalletStorageProvider_setMnemonic :: "string \<Rightarrow> wallet_db \<Rightarrow> wallet_db" where
  "DexieWalletStorageProvider_setMnemonic m db =
     (let existing = tbl_get (KStr WALLET_ID) db
      in wallet_put
           \<lparr>record_id = WALLET_ID,
            mnemonic = Some m,
            keyIndex = (case existing of None \<Rightarrow> 0 | Some r \<Rightarrow> keyIndex r)\<rparr> db)"

definition DexieWalletStorageProvider_getKeyIndex :: "wallet_db \<Rightarrow> number" where
  "DexieWalletStorageProvider_getKeyIndex db =
     (case tbl_get (KStr WALLET_ID) db of
        None \<Rightarrow> 0
      | Some record \<Rightarrow> keyIndex record)"

definition DexieWalletStorageProvider_setKeyIndex :: "number \<Rightarrow> wallet_db \<Rightarrow> wallet_db" where
  "DexieWalletStorageProvider_setKeyIndex index db =
     (let existing = tbl_get (KStr WALLET_ID) db
      in wallet_put
           \<lparr>record_id = WALLET_ID,
            mnemonic = (case existing of None \<Rightarrow> None | Some r \<Rightarrow> mnemonic r),
            keyIndex = index\<rparr> db)"

definition DexieWalletStorageProvider_clear :: "wallet_db \<Rightarrow> wallet_db" where
  "DexieWalletStorageProvider_clear db = tbl_clear db"

section \<open>Swap status\<close>

text \<open>
  \<open>SwapStatus\<close> is a union of string literal types. Each member is a constructor, in the
  order of the declaration, and \<open>SwapStatus_wire\<close> gives the literal it stands for.
\<close>

datatype SwapStatus =
    Pending
  | ClientFunded
  | ClientRefunded
  | ServerFunded
  | ClientRedeeming
  | ClientRedeemed
  | ServerRedeemed
  | ClientFundedServerRefunded
  | ClientRefundedServerFunded
  | ClientRefundedServerRefunded
  | Expired
  | ClientInvalidFunded
  | ClientFundedTooLate

fun SwapStatus_wire :: "SwapStatus \<Rightarrow> string" where
  "SwapStatus_wire Pending = ''pending''"
| "SwapStatus_wire ClientFunded = ''clientfunded''"
| "SwapStatus_wire ClientRefunded = ''clientrefunded''"
| "SwapStatus_wire ServerFunded = ''serverfunded''"
| "SwapStatus_wire ClientRedeeming = ''clientredeeming''"
| "SwapStatus_wire ClientRedeemed = ''clientredeemed''"
| "SwapStatus_wire ServerRedeemed = ''serverredeemed''"
| "SwapStatus_wire ClientFundedServerRefunded = ''clientfundedserverrefunded''"
| "SwapStatus_wire ClientRefundedServerFunded = ''clientrefundedserverfunded''"
| "SwapStatus_wire ClientRefundedServerRefunded = ''clientrefundedserverrefunded''"
| "SwapStatus_wire Expired = ''expired''"
| "SwapStatus_wire ClientInvalidFunded = ''clientinvalidfunded''"
| "SwapStatus_wire ClientFundedTooLate = ''clientfundedtoolate''"

definition SwapStatus_members :: "SwapStatus list" where
  "SwapStatus_members =
     [Pending, ClientFunded, ClientRefunded, ServerFunded, ClientRedeeming, ClientRedeemed,
      ServerRedeemed, ClientFundedServerRefunded, ClientRefundedServerFunded,
      ClientRefundedServerRefunded, Expired, ClientInvalidFunded, ClientFundedTooLate]"

text \<open>
  The vocabulary as the specification enumerates it in its section 4.4: eight plain
  states, the composite partial-failure states, and two anomaly states.
\<close>

definition spec_plain_states :: "string list" where
  "spec_plain_states =
     [''pending'', ''clientfunded'', ''serverfunded'', ''clientredeeming'',
      ''clientredeemed'', ''serverredeemed'', ''clientrefunded'', ''expired'']"

definition spec_composite_states :: "string list" where
  "spec_composite_states =
     [''clientfundedserverrefunded'', ''clientrefundedserverfunded'',
      ''clientrefundedserverrefunded'']"

definition spec_anomaly_states :: "string list" where
  "spec_anomaly_states = [''clientinvalidfunded'', ''clientfundedtoolate'']"

definition spec_wire_states :: "string list" where
  "spec_wire_states = spec_plain_states @ spec_composite_states @ spec_anomaly_states"

definition lowercase_no_separator :: "string \<Rightarrow> bool" where
  "lowercase_no_separator s = list_all (\<lambda>c. CHR ''a'' \<le> c \<and> c \<le> CHR ''z'') s"

section \<open>Client: swap creation\<close>

text \<open>
  The three creation methods forward the fields of the request to the WASM client,
  convert what comes back with \<open>fromWasm\<close> and return \<open>{ ...obj, direction: tag }\<close>.
  The WASM client is an external collaborator: its methods are parameters, and a
  rejected promise is the \<open>Inl\<close> branch. A response is either a \<open>Map\<close>, given by its
  entries in insertion order, or a plain object.
\<close>

datatype wasm_value = WasmMap "(string \<times> jsval) list" | WasmObject jsobj

definition Object_fromEntries :: "(string \<times> jsval) list \<Rightarrow> jsobj" where
  "Object_fromEntries entries = foldl (\<lambda>obj kv. obj(fst kv \<mapsto> snd kv)) Map.empty entries"

fun fromWasm :: "wasm_value \<Rightarrow> jsobj" where
  "fromWasm (WasmMap entries) = Object_fromEntries entries"
| "fromWasm (WasmObject obj) = obj"

datatype EvmNetwork = Ethereum | Polygon

record SwapRequest =
  target_address :: string
  target_amount :: number
  target_token :: string
  referral_code :: "string option"

record EvmToArkadeSwapRequest =
  target_address :: string
  source_amount :: number
  source_token :: string
  user_address :: string
  referral_code :: "string option"

record EvmToLightningSwapRequest =
  bolt11_invoice :: string
  source_token :: string
  user_address :: string
  referral_code :: "string option"

record WasmClient =
  wasm_createArkadeToEvmSwap ::
    "string \<Rightarrow> number \<Rightarrow> string \<Rightarrow> EvmNetwork \<Rightarrow> string option \<Rightarrow> error + wasm_value"
  wasm_createEvmToArkadeSwap ::
    "string \<Rightarrow> string \<Rightarrow> number \<Rightarrow> string \<Rightarrow> EvmNetwork \<Rightarrow> string option
       \<Rightarrow> error + wasm_value"
  wasm_createEvmToLightningSwap ::
    "string \<Rightarrow> string \<Rightarrow> string \<Rightarrow> EvmNetwork \<Rightarrow> string option \<Rightarrow> error + wasm_value"

definition Client_createArkadeToEvmSwap ::
  "WasmClient \<Rightarrow> SwapRequest \<Rightarrow> EvmNetwork \<Rightarrow> error + jsobj" where
  "Client_createArkadeToEvmSwap client request targetNetwork =
     (case wasm_createArkadeToEvmSwap client
             (SwapRequest.target_address request)
             (SwapRequest.target_amount request)
             (SwapRequest.target_token request)
             targetNetwork
             (SwapRequest.referral_code request) of
        Inl e \<Rightarrow> Inl e
      | Inr response \<Rightarrow>
          (let obj = fromWasm response
           in Inr (obj(''direction'' \<mapsto> JStr ''btc_to_evm''))))"

definition Client_createEvmToArkadeSwap ::
  "WasmClient \<Rightarrow> EvmToArkadeSwapRequest \<Rightarrow> EvmNetwork \<Rightarrow> error + jsobj" where
  "Client_createEvmToArkadeSwap client request sourceNetwork =
     (case wasm_createEvmToArkadeSwap client
             (EvmToArkadeSwapRequest.target_address request)
             (EvmToArkadeSwapRequest.user_address request)
             (EvmToArkadeSwapRequest.source_amount request)
             (EvmToArkadeSwapRequest.source_token request)
             sourceNetwork
             (EvmToArkadeSwapRequest.referral_code request) of
        Inl e \<Rightarrow> Inl e
      | Inr response \<Rightarrow>
          (let obj = fromWasm response
           in Inr (obj(''direction'' \<mapsto> JStr ''evm_to_btc''))))"

definition Client_createEvmToLightningSwap ::
  "WasmClient \<Rightarrow> EvmToLightningSwapRequest \<Rightarrow> EvmNetwork \<Rightarrow> error + jsobj" where
  "Client_createEvmToLightningSwap client request sourceNetwork =
     (case wasm_createEvmToLightningSwap client
             (EvmToLightningSwapRequest.bolt11_invoice request)
             (EvmToLightningSwapRequest.user_address request)
             (EvmToLightningSwapRequest.source_token request)
             sourceNetwork
             (EvmToLightningSwapRequest.referral_code request) of
        Inl e \<Rightarrow> Inl e
      | Inr response \<Rightarrow>
          (let obj = fromWasm response
           in Inr (obj(''direction'' \<mapsto> JStr ''evm_to_btc''))))"

section \<open>Lifecycle permission predicates\<close>

text \<open>
  Modelled from the spec: the lifecycle tracker (status parsing and the predicates
  \<open>canClaim\<close> and \<open>canRefund\<close>) is not among the sources, which only declare the
  \<open>SwapStatus\<close> type. The definitions follow section 4.4 of the specification: an
  unrecognized wire string fails with \<open>UnknownSwapStatus\<close>; \<open>canClaim\<close> holds for
  \<open>serverfunded\<close> only; \<open>canRefund\<close> holds when the client's leg is funded and the
  refund locktime has been reached.
\<close>

definition parseSwapStatus :: "string \<Rightarrow> error + SwapStatus" where
  "parseSwapStatus w =
     (case find (\<lambda>s. SwapStatus_wire s = w) SwapStatus_members of
        None \<Rightarrow> Inl (UnknownSwapStatus w)
      | Some s \<Rightarrow> Inr s)"

fun canClaim :: "SwapStatus \<Rightarrow> bool" where
  "canClaim ServerFunded = True"
| "canClaim _ = False"

fun client_leg_funded :: "SwapStatus \<Rightarrow> bool" where
  "client_leg_funded ClientFunded = True"
| "client_leg_funded ClientFundedServerRefunded = True"
| "client_leg_funded ClientFundedTooLate = True"
| "client_leg_funded _ = False"

definition canRefund :: "SwapStatus \<Rightarrow> number \<Rightarrow> number \<Rightarrow> bool" where
  "canRefund state now refundLocktime = (client_leg_funded state \<and> refundLocktime \<le> now)"

definition canClaim_wire :: "string \<Rightarrow> error + bool" where
  "canClaim_wire w =
     (case parseSwapStatus w of Inl e \<Rightarrow> Inl e | Inr s \<Rightarrow> Inr (canClaim s))"

definition canRefund_wire :: "string \<Rightarrow> number \<Rightarrow> number \<Rightarrow> error + bool" where
  "canRefund_wire w now refundLocktime =
     (case parseSwapStatus w of
        Inl e \<Rightarrow> Inl e
      | Inr s \<Rightarrow> Inr (canRefund s now refundLocktime))"

section \<open>Derivation engine\<close>

text \<open>
  \<open>SwapParams\<close> is the bundle a derivation returns, as \<open>types.ts\<close> declares it.
\<close>

record SwapParams =
  ownSk :: string
  ownPk :: string
  preimage :: string
  preimageHash :: string
  userId :: string
  keyIndex :: number

text \<open>
  Modelled from the spec: the derivation engine (the wallet module and the WASM core
  it calls are not among the sources). The cryptographic primitives are parameters.
  Section 4.1 makes \<open>derive\<close> a pure function of seed and index, total on indices in
  \<open>[0, 2^31)\<close>, failing with \<open>InvalidSeed\<close> or \<open>IndexOutOfRange\<close>; section 3 fixes
  \<open>preimageHash = Hash(preimage)\<close> and \<open>ownPublicKey = ScalarMultBase(ownSecretKey)\<close>,
  and makes the identity key seed-wide.
\<close>

record Primitives =
  valid_seed :: "string \<Rightarrow> bool"
  secret_key_at :: "string \<Rightarrow> number \<Rightarrow> string"
  preimage_at :: "string \<Rightarrow> number \<Rightarrow> string"
  Hash :: "string \<Rightarrow> string"
  ScalarMultBase :: "string \<Rightarrow> string"
  identity_key :: "string \<Rightarrow> string"

definition derive :: "Primitives \<Rightarrow> string \<Rightarrow> number \<Rightarrow> error + SwapParams" where
  "derive P seed index =
     (if \<not> valid_seed P seed then Inl InvalidSeed
      else if index < 0 \<or> 2 ^ 31 \<le> index then Inl IndexOutOfRange
      else Inr \<lparr>ownSk = secret_key_at P seed index,
                ownPk = ScalarMultBase P (secret_key_at P seed index),
                preimage = preimage_at P seed index,
                preimageHash = Hash P (preimage_at P seed index),
                userId = identity_key P seed,
                keyIndex = index\<rparr>)"

section \<open>Index counter and wallet\<close>

text \<open>
  Modelled from the spec: the index counter and the wallet operations built on it (the
  wallet module is not among the sources; its tests are). The counter lives in the
  wallet storage of the previous section. Section 4.2: \<open>reserveNextIndex\<close> reads the
  current value, persists \<open>current + 1\<close>, then returns \<open>current\<close>; \<open>setFloor n\<close>
  advances the counter to \<open>max current n\<close>. Section 2: creating a swap reserves
  the index first, then derives the bundle. The wallet keeps no state of its own, so a
  restart continues from the persisted storage.
\<close>

definition reserveNextIndex :: "wallet_db \<Rightarrow> number \<times> wallet_db" where
  "reserveNextIndex db =
     (let current = DexieWalletStorageProvider_getKeyIndex db
      in (current, DexieWalletStorageProvider_setKeyIndex (current + 1) db))"

definition setFloor :: "number \<Rightarrow> wallet_db \<Rightarrow> wallet_db" where
  "setFloor n db =
     DexieWalletStorageProvider_setKeyIndex
       (max (DexieWalletStorageProvider_getKeyIndex db) n) db"

definition importMnemonic :: "string \<Rightarrow> wallet_db \<Rightarrow> wallet_db" where
  "importMnemonic m db = DexieWalletStorageProvider_setMnemonic m db"

definition deriveSwapParams ::
  "Primitives \<Rightarrow> wallet_db \<Rightarrow> (error + SwapParams) \<times> wallet_db" where
  "deriveSwapParams P db =
     (case DexieWalletStorageProvider_getMnemonic db of
        None \<Rightarrow> (Inl NoMnemonic, db)
      | Some seed \<Rightarrow>
          (case reserveNextIndex db of
             (index, db') \<Rightarrow> (derive P seed index, db')))"

text \<open>
  \<open>derive_many P n\<close> is a run of \<open>n\<close> successive \<open>deriveSwapParams\<close> calls on one wallet.
  \<open>run_sessions\<close> chains such runs, each on a new wallet object over the same storage.
  \<open>issued\<close> collects the key indices of the bundles that were returned.
\<close>

fun derive_many ::
  "Primitives \<Rightarrow> nat \<Rightarrow> wallet_db \<Rightarrow> (error + SwapParams) list \<times> wallet_db" where
  "derive_many P 0 db = ([], db)"
| "derive_many P (Suc n) db =
     (case deriveSwapParams P db of
        (r, db') \<Rightarrow> (case derive_many P n db' of (rs, db'') \<Rightarrow> (r # rs, db'')))"

fun run_sessions ::
  "Primitives \<Rightarrow> nat list \<Rightarrow> wallet_db \<Rightarrow> (error + SwapParams) list \<times> wallet_db" where
  "run_sessions P [] db = ([], db)"
| "run_sessions P (n # ns) db =
     (case derive_many P n db of
        (rs, db') \<Rightarrow> (case run_sessions P ns db' of (rs', db'') \<Rightarrow> (rs @ rs', db'')))"

fun issued :: "(error + SwapParams) list \<Rightarrow> number list" where
  "issued [] = []"
| "issued (Inl e # rs) = issued rs"
| "issued (Inr p # rs) = SwapParams.keyIndex p # issued rs"

text \<open>
  \<open>within db rs db'\<close>: a run from storage \<open>db\<close> to storage \<open>db'\<close> with results \<open>rs\<close> kept
  the mnemonic, did not lower the counter, and issued strictly increasing indices that
  lie between the two counter values.
\<close>

definition within :: "wallet_db \<Rightarrow> (error + SwapParams) list \<Rightarrow> wallet_db \<Rightarrow> bool" where
  "within db rs db' \<longleftrightarrow>
     DexieWalletStorageProvider_getKeyIndex db \<le> DexieWalletStorageProvider_getKeyIndex db' \<and>
     DexieWalletStorageProvider_getMnemonic db' = DexieWalletStorageProvider_getMnemonic db \<and>
     (\<forall>i \<in> set (issued rs).
        DexieWalletStorageProvider_getKeyIndex db \<le> i \<and>
        i < DexieWalletStorageProvider_getKeyIndex db') \<and>
     sorted_wrt (<) (issued rs)"

section \<open>Recovery\<close>

text \<open>
  \<open>RecoverSwapsResponse\<close> follows the declaration in \<open>api.ts\<close>: each recovered swap is a
  swap response together with its derivation index.
\<close>

record RecoveredSwap =
  swap_id :: string
  index :: number
  response :: jsobj

record RecoverSwapsResponse =
  swaps :: "RecoveredSwap list"
  highest_index :: number

record client_state =
  wallet :: wallet_db
  swap_store :: swaps_db

definition swap_params_obj :: "SwapParams \<Rightarrow> jsobj" where
  "swap_params_obj p =
     [''secret_key'' \<mapsto> JStr (ownSk p),
      ''public_key'' \<mapsto> JStr (ownPk p),
      ''preimage'' \<mapsto> JStr (preimage p),
      ''preimage_hash'' \<mapsto> JStr (preimageHash p),
      ''user_id'' \<mapsto> JStr (userId p),
      ''key_index'' \<mapsto> JNum (SwapParams.keyIndex p)]"

definition extended_swap_data :: "jsobj \<Rightarrow> SwapParams \<Rightarrow> jsobj" where
  "extended_swap_data resp p =
     [''response'' \<mapsto> JObj resp, ''swap_params'' \<mapsto> JObj (swap_params_obj p)]"

text \<open>
  Modelled from the spec: the recovery coordinator (\<open>Client.recoverSwaps\<close> only forwards
  to the WASM client, which is not among the sources). Section 4.5: for each returned
  swap the bundle is derived again at the recorded index and a full record is written to
  the swap store; after all records are written the counter is raised with
  \<open>setFloor (highest_index + 1)\<close>; on any failure none of the effects are kept. The
  backend lookup is a parameter.
\<close>

fun write_recovered ::
  "Primitives \<Rightarrow> string \<Rightarrow> RecoveredSwap list \<Rightarrow> swaps_db \<Rightarrow> error + (jsobj list \<times> swaps_db)"
where
  "write_recovered P seed [] db = Inr ([], db)"
| "write_recovered P seed (s # ss) db =
     (case derive P seed (index s) of
        Inl e \<Rightarrow> Inl e
      | Inr p \<Rightarrow>
          (case DexieSwapStorageProvider_store (swap_id s)
                  (extended_swap_data (response s) p) db of
             Inl e \<Rightarrow> Inl e
           | Inr db' \<Rightarrow>
               (case write_recovered P seed ss db' of
                  Inl e \<Rightarrow> Inl e
                | Inr (ds, db'') \<Rightarrow> Inr (extended_swap_data (response s) p # ds, db''))))"

definition recoverSwaps ::
  "Primitives \<Rightarrow> (string \<Rightarrow> error + RecoverSwapsResponse) \<Rightarrow> client_state
     \<Rightarrow> error + (jsobj list \<times> client_state)" where
  "recoverSwaps P backend st =
     (case DexieWalletStorageProvider_getMnemonic (wallet st) of
        None \<Rightarrow> Inl NoMnemonic
      | Some seed \<Rightarrow>
          (case backend (identity_key P seed) of
             Inl e \<Rightarrow> Inl e
           | Inr resp \<Rightarrow>
               (case write_recovered P seed (swaps resp) (swap_store st) of
                  Inl e \<Rightarrow> Inl e
                | Inr (ds, db') \<Rightarrow>
                    Inr (ds, \<lparr>wallet = setFloor (highest_index resp + 1) (wallet st),
                              swap_store = db'\<rparr>))))"

section \<open>Sample inputs\<close>

text \<open>Concrete inputs at which the theorems below are exercised.\<close>

definition sample_response :: wasm_value where
  "sample_response =
     WasmMap [(''id'', JStr ''a''), (''status'', JStr ''pending''),
              (''direction'', JStr ''sideways'')]"

definition sample_plain_response :: wasm_value where
  "sample_plain_response =
     WasmObject [''id'' \<mapsto> JStr ''a'', ''status'' \<mapsto> JStr ''pending'',
                 ''direction'' \<mapsto> JStr ''sideways'']"

definition sample_client :: WasmClient where
  "sample_client =
     \<lparr>wasm_createArkadeToEvmSwap = (\<lambda>addr amount token net code. Inr sample_response),
      wasm_createEvmToArkadeSwap =
        (\<lambda>addr user amount token net code. Inr sample_plain_response),
      wasm_createEvmToLightningSwap = (\<lambda>invoice user token net code. Inr sample_response)\<rparr>"

definition sample_request :: SwapRequest where
  "sample_request =
     \<lparr>SwapRequest.target_address = ''0xabc'', SwapRequest.target_amount = 10,
      SwapRequest.target_token = ''usdc_pol'', SwapRequest.referral_code = None\<rparr>"

definition sample_arkade_request :: EvmToArkadeSwapRequest where
  "sample_arkade_request =
     \<lparr>EvmToArkadeSwapRequest.target_address = ''ark1'',
      EvmToArkadeSwapRequest.source_amount = 10,
      EvmToArkadeSwapRequest.source_token = ''usdc_pol'',
      EvmToArkadeSwapRequest.user_address = ''0xabc'',
      EvmToArkadeSwapRequest.referral_code = None\<rparr>"

definition sample_lightning_request :: EvmToLightningSwapRequest where
  "sample_lightning_request =
     \<lparr>EvmToLightningSwapRequest.bolt11_invoice = ''lnbc1'',
      EvmToLightningSwapRequest.source_token = ''usdc_eth'',
      EvmToLightningSwapRequest.user_address = ''0xabc'',
      EvmToLightningSwapRequest.referral_code = None\<rparr>"

definition sample_primitives :: Primitives where
  "sample_primitives =
     \<lparr>valid_seed = (\<lambda>seed. seed \<noteq> []),
      secret_key_at = (\<lambda>seed i. seed @ ''/sk/'' @ replicate (nat i) CHR ''i''),
      preimage_at = (\<lambda>seed i. seed @ ''/pre/'' @ replicate (nat i) CHR ''i''),
      Hash = (\<lambda>s. ''h:'' @ s),
      ScalarMultBase = (\<lambda>s. ''pk:'' @ s),
      identity_key = (\<lambda>seed. ''xpub:'' @ seed)\<rparr>"

definition sample_history :: RecoverSwapsResponse where
  "sample_history =
     \<lparr>swaps = [\<lparr>swap_id = ''a'', index = 7,
                 response = [''id'' \<mapsto> JStr ''a'', ''status'' \<mapsto> JStr ''expired'']\<rparr>],
      highest_index = 7\<rparr>"

definition sample_backend :: "string \<Rightarrow> error + RecoverSwapsResponse" where
  "sample_backend identity = Inr sample_history"

definition sample_state :: client_state where
  "sample_state =
     \<lparr>wallet = DexieWalletStorageProvider_setKeyIndex 3 (importMnemonic ''abandon'' []),
      swap_store = []\<rparr>"

section \<open>Properties of the Dexie table\<close>

lemma key_lt_irrefl: "\<not> key_lt k k"
  by (cases k) simp_all

lemma key_lt_trans: "key_lt a b \<Longrightarrow> key_lt b c \<Longrightarrow> key_lt a c"
  by (cases a; cases b; cases c) auto

lemma key_lt_total: "a \<noteq> b \<Longrightarrow> \<not> key_lt a b \<Longrightarrow> key_lt b a"
  by (cases a; cases b) auto

lemma to_key_key_val: "to_key (key_val k) = Some k"
  by (cases k) simp_all

lemma key_val_to_key: "to_key v = Some k \<Longrightarrow> key_val k = v"
  by (cases v) auto

lemma tbl_get_put_same: "tbl_get k (tbl_put k v t) = Some v"
  by (induction t) (auto simp: tbl_get_def)

lemma tbl_get_put_other: "k' \<noteq> k \<Longrightarrow> tbl_get k' (tbl_put k v t) = tbl_get k' t"
  by (induction t) (auto simp: tbl_get_def)

lemma set_tbl_put: "set (tbl_put k v t) \<subseteq> insert (k, v) (set t)"
  by (induction t) (auto split: if_splits)

lemma fst_set_tbl_put: "fst ` set (tbl_put k v t) = insert k (fst ` set t)"
  by (induction k v t rule: tbl_put.induct) (simp_all add: insert_commute)

lemma keys_ascending_put: "keys_ascending t \<Longrightarrow> keys_ascending (tbl_put k v t)"
proof (induction t)
  case Nil
  then show ?case by (simp add: keys_ascending_def)
next
  case (Cons a t)
  obtain k' v' where a: "a = (k', v')" by (cases a)
  from Cons.prems have tl: "keys_ascending t" and hd: "\<forall>x \<in> set (map fst t). key_lt k' x"
    by (auto simp: keys_ascending_def a)
  show ?case
  proof (cases "k = k'")
    case True
    with Cons.prems show ?thesis by (simp add: keys_ascending_def a)
  next
    case neq: False
    show ?thesis
    proof (cases "key_lt k k'")
      case True
      with hd have "\<forall>x \<in> set (map fst t). key_lt k x" by (blast intro: key_lt_trans)
      with True neq Cons.prems show ?thesis by (simp add: keys_ascending_def a)
    next
      case False
      with neq have lt: "key_lt k' k" by (simp add: key_lt_total)
      have "keys_ascending (tbl_put k v t)" using Cons.IH tl by simp
      moreover have "\<forall>x \<in> set (map fst (tbl_put k v t)). key_lt k' x"
        using hd lt by (simp add: fst_set_tbl_put)
      ultimately show ?thesis using neq False by (simp add: keys_ascending_def a)
    qed
  qed
qed

lemma keys_ascending_delete: "keys_ascending t \<Longrightarrow> keys_ascending (tbl_delete k t)"
  unfolding keys_ascending_def tbl_delete_def
  by (induction t) auto

lemma keys_ascending_distinct: "keys_ascending t \<Longrightarrow> distinct (map fst t)"
  unfolding keys_ascending_def
  by (induction t) (auto simp: key_lt_irrefl)

lemma ids_inbound_put:
  "ids_inbound db \<Longrightarrow> obj ''id'' = Some (key_val k) \<Longrightarrow> ids_inbound (tbl_put k obj db)"
  unfolding ids_inbound_def
  by (induction db) auto

lemma ids_inbound_delete: "ids_inbound db \<Longrightarrow> ids_inbound (tbl_delete k db)"
  unfolding ids_inbound_def tbl_delete_def
  by (induction db) auto

lemma apply_op_inv:
  assumes "keys_ascending db" "ids_inbound db"
  shows "keys_ascending (apply_op op db) \<and> ids_inbound (apply_op op db)"
proof (cases op)
  case (Store swapId data)
  show ?thesis
  proof (cases "DexieSwapStorageProvider_store swapId data db")
    case (Inl e)
    with Store assms show ?thesis by simp
  next
    case (Inr db')
    then obtain v k where v: "([''id'' \<mapsto> JStr swapId] ++ data) ''id'' = Some v"
      and k: "to_key v = Some k"
      and db': "db' = tbl_put k ([''id'' \<mapsto> JStr swapId] ++ data) db"
      by (auto simp: DexieSwapStorageProvider_store_def table_put_def
               split: option.splits)
    from k have "key_val k = v" by (rule key_val_to_key)
    with v db' assms Store Inr show ?thesis
      by (simp add: keys_ascending_put ids_inbound_put)
  qed
next
  case (Delete swapId)
  with assms show ?thesis
    by (simp add: DexieSwapStorageProvider_delete_def keys_ascending_delete ids_inbound_delete)
qed

lemma run_ops_inv:
  "keys_ascending db \<Longrightarrow> ids_inbound db \<Longrightarrow>
   keys_ascending (run_ops ops db) \<and> ids_inbound (run_ops ops db)"
proof (induction ops arbitrary: db)
  case Nil
  then show ?case by simp
next
  case (Cons op ops)
  from apply_op_inv [OF Cons.prems] Cons.IH show ?case by simp
qed

lemma reachable_inv:
  "keys_ascending (run_ops ops []) \<and> ids_inbound (run_ops ops [])"
  by (rule run_ops_inv) (simp_all add: keys_ascending_def ids_inbound_def)


lemma sample_data_no_id: "sample_data ''id'' = None"
  by (simp add: sample_data_def)

lemma sample_update_no_id: "sample_update ''id'' = None"
  by (simp add: sample_update_def)

lemma spread_without_id:
  "data ''id'' = None \<Longrightarrow> ([''id'' \<mapsto> JStr swapId] ++ data) ''id'' = Some (JStr swapId)"
  by (simp add: map_add_def)

lemma rest_of_spread:
  "data ''id'' = None \<Longrightarrow> ([''id'' \<mapsto> JStr swapId] ++ data)(''id'' := None) = data"
  by (rule ext) (simp add: map_add_def split: option.splits)

lemma store_without_id:
  "data ''id'' = None \<Longrightarrow>
   DexieSwapStorageProvider_store swapId data db =
     Inr (tbl_put (KStr swapId) ([''id'' \<mapsto> JStr swapId] ++ data) db)"
  by (simp add: DexieSwapStorageProvider_store_def table_put_def spread_without_id)

lemma get_after_store:
  "data ''id'' = None \<Longrightarrow>
   DexieSwapStorageProvider_get swapId
     (tbl_put (KStr swapId) ([''id'' \<mapsto> JStr swapId] ++ data) db) = Some data"
  by (simp add: DexieSwapStorageProvider_get_def tbl_get_put_same rest_of_spread)

text \<open>
  Claim C8, as the code has it. A record that has no \<open>id\<close> property of its own (the shape
  \<open>ExtendedSwapStorageData\<close> declares) is stored successfully under the given swap id,
  and \<open>get\<close> then returns exactly that record. Storing a second such record under the
  same id replaces the first one wholesale: \<open>get\<close> returns exactly the second record.
\<close>

theorem store_get_roundtrip:
  assumes "r1 ''id'' = None" and "r2 ''id'' = None"
  shows "\<exists>db1 db2.
           DexieSwapStorageProvider_store swapId r1 db = Inr db1 \<and>
           DexieSwapStorageProvider_get swapId db1 = Some r1 \<and>
           DexieSwapStorageProvider_store swapId r2 db1 = Inr db2 \<and>
           DexieSwapStorageProvider_get swapId db2 = Some r2"
  using assms by (simp add: store_without_id get_after_store)

theorem store_get_roundtrip_witness:
  "sample_data ''id'' = None \<and> sample_update ''id'' = None \<and>
   (\<exists>db1 db2.
      DexieSwapStorageProvider_store ''a'' sample_data [] = Inr db1 \<and>
      DexieSwapStorageProvider_get ''a'' db1 = Some sample_data \<and>
      DexieSwapStorageProvider_store ''a'' sample_update db1 = Inr db2 \<and>
      DexieSwapStorageProvider_get ''a'' db2 = Some sample_update)"
  using store_get_roundtrip [of sample_data sample_update "''a''" "[]"]
  by (simp add: sample_data_no_id sample_update_no_id)

text \<open>
  A record that carries an \<open>id\<close> property, such as an entry that \<open>getAll\<close> returned for
  swap \<open>a\<close>, is filed under its own \<open>id\<close>: after \<open>store\<close> under swap id \<open>b\<close>, \<open>get\<close> finds
  nothing at \<open>b\<close>.
\<close>

theorem store_get_roundtrip_counterexample:
  "DexieSwapStorageProvider_store ''b'' (sample_data(''id'' \<mapsto> JStr ''a'')) []
     = Inr [(KStr ''a'', sample_data(''id'' \<mapsto> JStr ''a''))] \<and>
   DexieSwapStorageProvider_get ''b'' [(KStr ''a'', sample_data(''id'' \<mapsto> JStr ''a''))]
     = None"
proof -
  have "[''id'' \<mapsto> JStr ''b''] ++ sample_data(''id'' \<mapsto> JStr ''a'')
          = sample_data(''id'' \<mapsto> JStr ''a'')"
    by (rule ext) (simp add: map_add_def split: option.splits)
  then show ?thesis
    by (simp add: DexieSwapStorageProvider_store_def DexieSwapStorageProvider_get_def
                  table_put_def tbl_get_def)
qed


lemma inbound_entry:
  "ids_inbound db \<Longrightarrow> (k, e) \<in> set db \<Longrightarrow> e ''id'' = Some (key_val k)"
  unfolding ids_inbound_def by (auto simp: list_all_iff)

lemma key_val_inject: "key_val k = key_val k' \<Longrightarrow> k = k'"
  by (cases k; cases k') simp_all

lemma getAll_ids:
  "ids_inbound db \<Longrightarrow>
   map (\<lambda>e. e ''id'') (DexieSwapStorageProvider_getAll db)
     = map (\<lambda>k. Some (key_val k)) (DexieSwapStorageProvider_list db)"
  unfolding ids_inbound_def DexieSwapStorageProvider_getAll_def
    DexieSwapStorageProvider_list_def tbl_toArray_def tbl_primaryKeys_def
  by (induction db) auto

lemma getAll_entry_get:
  assumes "keys_ascending db" and "ids_inbound db"
    and "e \<in> set (DexieSwapStorageProvider_getAll db)"
    and "e ''id'' = Some (JStr swapId)"
  shows "DexieSwapStorageProvider_get swapId db = Some (e(''id'' := None))"
proof -
  from assms(3) obtain k where mem: "(k, e) \<in> set db"
    by (auto simp: DexieSwapStorageProvider_getAll_def tbl_toArray_def)
  with assms(2) have "e ''id'' = Some (key_val k)" by (rule inbound_entry)
  with assms(4) have "key_val k = key_val (KStr swapId)" by simp
  then have "k = KStr swapId" by (rule key_val_inject)
  with mem have "map_of db (KStr swapId) = Some e"
    using keys_ascending_distinct [OF assms(1)] by simp
  then show ?thesis by (simp add: DexieSwapStorageProvider_get_def tbl_get_def)
qed

lemma get_entry_getAll:
  assumes "ids_inbound db" and "DexieSwapStorageProvider_get swapId db = Some r"
  shows "r(''id'' \<mapsto> JStr swapId) \<in> set (DexieSwapStorageProvider_getAll db)"
proof -
  from assms(2) obtain e where e: "map_of db (KStr swapId) = Some e"
    and r: "r = e(''id'' := None)"
    by (auto simp: DexieSwapStorageProvider_get_def tbl_get_def split: option.splits)
  from e have mem: "(KStr swapId, e) \<in> set db" by (rule map_of_SomeD)
  with assms(1) have "e ''id'' = Some (key_val (KStr swapId))" by (rule inbound_entry)
  then have "r(''id'' \<mapsto> JStr swapId) = e" unfolding r by (auto simp: fun_eq_iff)
  with mem show ?thesis
    by (force simp: DexieSwapStorageProvider_getAll_def tbl_toArray_def)
qed

text \<open>
  Claim C9, as the code has it. In every state reached from the empty table by \<open>store\<close>
  and \<open>delete\<close> calls, the primary keys are pairwise distinct and \<open>getAll\<close> returns one
  entry per key, in key order, each carrying its key as \<open>id\<close> property. An entry with
  string id is the record \<open>get\<close> returns for that id with the \<open>id\<close> property added, and
  every record \<open>get\<close> returns arises from an entry of \<open>getAll\<close> in this way.
\<close>

theorem getAll_agrees_with_get:
  "distinct (DexieSwapStorageProvider_list (run_ops ops [])) \<and>
   map (\<lambda>e. e ''id'') (DexieSwapStorageProvider_getAll (run_ops ops []))
     = map (\<lambda>k. Some (key_val k)) (DexieSwapStorageProvider_list (run_ops ops [])) \<and>
   (\<forall>e \<in> set (DexieSwapStorageProvider_getAll (run_ops ops [])). \<forall>swapId.
      e ''id'' = Some (JStr swapId) \<longrightarrow>
      DexieSwapStorageProvider_get swapId (run_ops ops []) = Some (e(''id'' := None))) \<and>
   (\<forall>swapId r.
      DexieSwapStorageProvider_get swapId (run_ops ops []) = Some r \<longrightarrow>
      r(''id'' \<mapsto> JStr swapId) \<in> set (DexieSwapStorageProvider_getAll (run_ops ops [])))"
proof -
  have asc: "keys_ascending (run_ops ops [])" and inb: "ids_inbound (run_ops ops [])"
    using reachable_inv [of ops] by simp_all
  have "distinct (DexieSwapStorageProvider_list (run_ops ops []))"
    using keys_ascending_distinct [OF asc]
    by (simp add: DexieSwapStorageProvider_list_def tbl_primaryKeys_def)
  moreover note getAll_ids [OF inb]
  moreover have "\<forall>e \<in> set (DexieSwapStorageProvider_getAll (run_ops ops [])). \<forall>swapId.
      e ''id'' = Some (JStr swapId) \<longrightarrow>
      DexieSwapStorageProvider_get swapId (run_ops ops []) = Some (e(''id'' := None))"
    using getAll_entry_get [OF asc inb] by blast
  moreover have "\<forall>swapId r.
      DexieSwapStorageProvider_get swapId (run_ops ops []) = Some r \<longrightarrow>
      r(''id'' \<mapsto> JStr swapId) \<in> set (DexieSwapStorageProvider_getAll (run_ops ops []))"
    using get_entry_getAll [OF inb] by blast
  ultimately show ?thesis by blast
qed

lemma run_sample: "run_ops [Store ''a'' sample_data] [] = [(KStr ''a'', sample_data(''id'' \<mapsto> JStr ''a''))]"
proof -
  have "[''id'' \<mapsto> JStr ''a''] ++ sample_data = sample_data(''id'' \<mapsto> JStr ''a'')"
    by (rule ext) (simp add: map_add_def sample_data_def split: option.splits)
  then show ?thesis
    by (simp add: DexieSwapStorageProvider_store_def table_put_def)
qed

theorem getAll_agrees_with_get_witness:
  "sample_data(''id'' \<mapsto> JStr ''a'')
     \<in> set (DexieSwapStorageProvider_getAll (run_ops [Store ''a'' sample_data] [])) \<and>
   (sample_data(''id'' \<mapsto> JStr ''a'')) ''id'' = Some (JStr ''a'') \<and>
   DexieSwapStorageProvider_get ''a'' (run_ops [Store ''a'' sample_data] [])
     = Some ((sample_data(''id'' \<mapsto> JStr ''a''))(''id'' := None))"
proof -
  have mem: "sample_data(''id'' \<mapsto> JStr ''a'')
      \<in> set (DexieSwapStorageProvider_getAll (run_ops [Store ''a'' sample_data] []))"
    unfolding run_sample by (simp add: DexieSwapStorageProvider_getAll_def tbl_toArray_def)
  have idp: "(sample_data(''id'' \<mapsto> JStr ''a'')) ''id'' = Some (JStr ''a'')" by simp
  from getAll_agrees_with_get [of "[Store ''a'' sample_data]"] mem idp
  have "DexieSwapStorageProvider_get ''a'' (run_ops [Store ''a'' sample_data] [])
     = Some ((sample_data(''id'' \<mapsto> JStr ''a''))(''id'' := None))"
    by blast
  with mem idp show ?thesis by blast
qed

text \<open>
  The entry of \<open>getAll\<close> differs from what \<open>get\<close> returns: it has the additional \<open>id\<close>
  property.
\<close>

theorem getAll_agrees_with_get_counterexample:
  "DexieSwapStorageProvider_getAll (run_ops [Store ''a'' sample_data] [])
     = [sample_data(''id'' \<mapsto> JStr ''a'')] \<and>
   DexieSwapStorageProvider_get ''a'' (run_ops [Store ''a'' sample_data] [])
     = Some sample_data \<and>
   sample_data(''id'' \<mapsto> JStr ''a'') \<noteq> sample_data"
proof -
  have "(sample_data(''id'' \<mapsto> JStr ''a''))(''id'' := None) = sample_data"
    by (rule ext) (simp add: sample_data_def)
  moreover have "sample_data(''id'' \<mapsto> JStr ''a'') \<noteq> sample_data"
  proof
    assume "sample_data(''id'' \<mapsto> JStr ''a'') = sample_data"
    then have "(sample_data(''id'' \<mapsto> JStr ''a'')) ''id'' = sample_data ''id''" by simp
    then show False by (simp add: sample_data_def)
  qed
  ultimately show ?thesis
    unfolding run_sample
    by (simp add: DexieSwapStorageProvider_getAll_def tbl_toArray_def
                  DexieSwapStorageProvider_get_def tbl_get_def)
qed


section \<open>Properties of the wallet storage\<close>

lemma wallet_get_put: "tbl_get (KStr (record_id r)) (wallet_put r db) = Some r"
  by (simp add: wallet_put_def tbl_get_put_same)

lemma getKeyIndex_setKeyIndex:
  "DexieWalletStorageProvider_getKeyIndex (DexieWalletStorageProvider_setKeyIndex i db) = i"
  by (simp add: DexieWalletStorageProvider_getKeyIndex_def
        DexieWalletStorageProvider_setKeyIndex_def wallet_put_def tbl_get_put_same Let_def)

lemma getMnemonic_setMnemonic:
  "DexieWalletStorageProvider_getMnemonic (DexieWalletStorageProvider_setMnemonic m db) = Some m"
  by (simp add: DexieWalletStorageProvider_getMnemonic_def
        DexieWalletStorageProvider_setMnemonic_def wallet_put_def tbl_get_put_same Let_def)

lemma getMnemonic_setKeyIndex:
  "DexieWalletStorageProvider_getMnemonic (DexieWalletStorageProvider_setKeyIndex i db)
     = DexieWalletStorageProvider_getMnemonic db"
  by (simp add: DexieWalletStorageProvider_getMnemonic_def
        DexieWalletStorageProvider_setKeyIndex_def wallet_put_def tbl_get_put_same Let_def
      split: option.splits)

lemma getKeyIndex_setMnemonic:
  "DexieWalletStorageProvider_getKeyIndex (DexieWalletStorageProvider_setMnemonic m db)
     = DexieWalletStorageProvider_getKeyIndex db"
  by (simp add: DexieWalletStorageProvider_getKeyIndex_def
        DexieWalletStorageProvider_setMnemonic_def wallet_put_def tbl_get_put_same Let_def
      split: option.splits)

lemma getMnemonic_empty: "DexieWalletStorageProvider_getMnemonic [] = None"
  by (simp add: DexieWalletStorageProvider_getMnemonic_def tbl_get_def)

lemma getKeyIndex_empty: "DexieWalletStorageProvider_getKeyIndex [] = 0"
  by (simp add: DexieWalletStorageProvider_getKeyIndex_def tbl_get_def)

text \<open>
  Claim C10. In every state of the wallet storage, \<open>setKeyIndex\<close> leaves the stored
  mnemonic as it was and \<open>setMnemonic\<close> leaves the stored key index as it was; on an empty
  storage the mnemonic stays \<open>null\<close> and the key index stays \<open>0\<close>.
\<close>

theorem wallet_setters_frame:
  "DexieWalletStorageProvider_getMnemonic (DexieWalletStorageProvider_setKeyIndex i db)
     = DexieWalletStorageProvider_getMnemonic db \<and>
   DexieWalletStorageProvider_getKeyIndex (DexieWalletStorageProvider_setMnemonic m db)
     = DexieWalletStorageProvider_getKeyIndex db \<and>
   DexieWalletStorageProvider_getMnemonic (DexieWalletStorageProvider_setKeyIndex i []) = None \<and>
   DexieWalletStorageProvider_getKeyIndex (DexieWalletStorageProvider_setMnemonic m []) = 0"
  by (simp only: getMnemonic_setKeyIndex getKeyIndex_setMnemonic getMnemonic_empty
        getKeyIndex_empty simp_thms)

theorem wallet_setters_frame_witness:
  "DexieWalletStorageProvider_getMnemonic
     (DexieWalletStorageProvider_setKeyIndex 4 (DexieWalletStorageProvider_setMnemonic ''abandon'' []))
     = Some ''abandon'' \<and>
   DexieWalletStorageProvider_getKeyIndex
     (DexieWalletStorageProvider_setMnemonic ''abandon'' (DexieWalletStorageProvider_setKeyIndex 4 []))
     = 4"
  using wallet_setters_frame
          [of 4 "DexieWalletStorageProvider_setMnemonic ''abandon'' []" "''abandon''"]
        wallet_setters_frame
          [of 4 "DexieWalletStorageProvider_setKeyIndex 4 []" "''abandon''"]
  by (simp add: getMnemonic_setMnemonic getKeyIndex_setKeyIndex)


section \<open>Properties of the status vocabulary\<close>

lemma SwapStatus_members_all: "set SwapStatus_members = UNIV"
proof -
  have "s \<in> set SwapStatus_members" for s
    by (cases s) (simp_all add: SwapStatus_members_def)
  then show ?thesis by blast
qed

lemma wire_of_members: "map SwapStatus_wire SwapStatus_members =
  [''pending'', ''clientfunded'', ''clientrefunded'', ''serverfunded'', ''clientredeeming'',
   ''clientredeemed'', ''serverredeemed'', ''clientfundedserverrefunded'',
   ''clientrefundedserverfunded'', ''clientrefundedserverrefunded'', ''expired'',
   ''clientinvalidfunded'', ''clientfundedtoolate'']"
  by (simp add: SwapStatus_members_def)

lemma range_wire: "range SwapStatus_wire = set (map SwapStatus_wire SwapStatus_members)"
  using SwapStatus_members_all by (simp add: image_def) 

lemma inj_wire: "inj SwapStatus_wire"
proof (rule injI)
  fix x y assume "SwapStatus_wire x = SwapStatus_wire y"
  then show "x = y" by (cases x; cases y; simp)
qed

lemma spec_wire_states_distinct: "distinct spec_wire_states"
  by (simp add: spec_wire_states_def spec_plain_states_def spec_composite_states_def
      spec_anomaly_states_def)

text \<open>
  Claim C6. The literals of the \<open>SwapStatus\<close> type are exactly the thirteen wire values
  the specification enumerates, each member has its own literal, every literal consists
  of lowercase letters only, and the specification lists three composite states.
\<close>

theorem SwapStatus_vocabulary:
  "range SwapStatus_wire = set spec_wire_states \<and>
   inj SwapStatus_wire \<and>
   distinct spec_wire_states \<and>
   length spec_wire_states = 13 \<and>
   list_all lowercase_no_separator spec_wire_states \<and>
   length spec_composite_states = 3"
proof -
  have "range SwapStatus_wire = set spec_wire_states"
    unfolding range_wire wire_of_members
    by (auto simp: spec_wire_states_def spec_plain_states_def spec_composite_states_def
      spec_anomaly_states_def)
  moreover have "list_all lowercase_no_separator spec_wire_states"
    by (simp add: spec_wire_states_def spec_plain_states_def spec_composite_states_def
      spec_anomaly_states_def lowercase_no_separator_def less_eq_char_def)
  moreover have "length spec_wire_states = 13" "length spec_composite_states = 3"
    by (simp_all add: spec_wire_states_def spec_plain_states_def spec_composite_states_def
      spec_anomaly_states_def)
  ultimately show ?thesis using inj_wire spec_wire_states_distinct by blast
qed

theorem SwapStatus_vocabulary_witness:
  "''clientfundedtoolate'' \<in> range SwapStatus_wire \<and> ''client_funded'' \<notin> range SwapStatus_wire"
  using SwapStatus_vocabulary
  by (simp add: spec_wire_states_def spec_plain_states_def spec_composite_states_def
        spec_anomaly_states_def)


section \<open>Properties of swap creation\<close>

lemma Object_fromEntries_snoc:
  "Object_fromEntries (entries @ [(k, v)]) = (Object_fromEntries entries)(k \<mapsto> v)"
  by (simp add: Object_fromEntries_def)

lemma Object_fromEntries_lookup: "Object_fromEntries entries k = map_of (rev entries) k"
proof (induction entries rule: rev_induct)
  case Nil
  then show ?case by (simp add: Object_fromEntries_def)
next
  case (snoc kv entries)
  then show ?case by (cases kv) (simp add: Object_fromEntries_snoc)
qed

lemma fromWasm_object: "fromWasm (WasmObject props) k = props k"
  by simp

lemma fromWasm_map: "fromWasm (WasmMap entries) k = map_of (rev entries) k"
  by (simp add: Object_fromEntries_lookup)

lemma tagged_response:
  assumes "obj = (fromWasm resp)(''direction'' \<mapsto> JStr tag)"
  shows "obj ''direction'' = Some (JStr tag) \<and>
         (\<forall>props. resp = WasmObject props \<longrightarrow>
            (\<forall>k. k \<noteq> ''direction'' \<longrightarrow> obj k = props k)) \<and>
         (\<forall>entries. resp = WasmMap entries \<longrightarrow>
            (\<forall>k. k \<noteq> ''direction'' \<longrightarrow> obj k = map_of (rev entries) k))"
  unfolding assms by (auto simp: Object_fromEntries_lookup)

text \<open>
  Claim C7. Whenever the WASM client delivers a response, \<open>createArkadeToEvmSwap\<close>
  returns an object whose \<open>direction\<close> is \<open>btc_to_evm\<close>, and \<open>createEvmToArkadeSwap\<close> and
  \<open>createEvmToLightningSwap\<close> return one whose \<open>direction\<close> is \<open>evm_to_btc\<close>, whatever
  the response says about \<open>direction\<close>. Every other property of the result is the
  property of the response itself: the own property of a plain object, or the entry of
  a \<open>Map\<close> (the last one in insertion order, should a key occur twice in the list of
  entries); a property the response does not have is absent from the result.
\<close>

theorem direction_tag_client_side:
  "(wasm_createArkadeToEvmSwap client
      (SwapRequest.target_address req1) (SwapRequest.target_amount req1)
      (SwapRequest.target_token req1) net (SwapRequest.referral_code req1) = Inr resp1
    \<longrightarrow> (\<exists>obj. Client_createArkadeToEvmSwap client req1 net = Inr obj \<and>
           obj ''direction'' = Some (JStr ''btc_to_evm'') \<and>
           (\<forall>props. resp1 = WasmObject props \<longrightarrow>
              (\<forall>k. k \<noteq> ''direction'' \<longrightarrow> obj k = props k)) \<and>
           (\<forall>entries. resp1 = WasmMap entries \<longrightarrow>
              (\<forall>k. k \<noteq> ''direction'' \<longrightarrow> obj k = map_of (rev entries) k)))) \<and>
   (wasm_createEvmToArkadeSwap client
      (EvmToArkadeSwapRequest.target_address req2) (EvmToArkadeSwapRequest.user_address req2)
      (EvmToArkadeSwapRequest.source_amount req2) (EvmToArkadeSwapRequest.source_token req2)
      net (EvmToArkadeSwapRequest.referral_code req2) = Inr resp2
    \<longrightarrow> (\<exists>obj. Client_createEvmToArkadeSwap client req2 net = Inr obj \<and>
           obj ''direction'' = Some (JStr ''evm_to_btc'') \<and>
           (\<forall>props. resp2 = WasmObject props \<longrightarrow>
              (\<forall>k. k \<noteq> ''direction'' \<longrightarrow> obj k = props k)) \<and>
           (\<forall>entries. resp2 = WasmMap entries \<longrightarrow>
              (\<forall>k. k \<noteq> ''direction'' \<longrightarrow> obj k = map_of (rev entries) k)))) \<and>
   (wasm_createEvmToLightningSwap client
      (EvmToLightningSwapRequest.bolt11_invoice req3)
      (EvmToLightningSwapRequest.user_address req3)
      (EvmToLightningSwapRequest.source_token req3)
      net (EvmToLightningSwapRequest.referral_code req3) = Inr resp3
    \<longrightarrow> (\<exists>obj. Client_createEvmToLightningSwap client req3 net = Inr obj \<and>
           obj ''direction'' = Some (JStr ''evm_to_btc'') \<and>
           (\<forall>props. resp3 = WasmObject props \<longrightarrow>
              (\<forall>k. k \<noteq> ''direction'' \<longrightarrow> obj k = props k)) \<and>
           (\<forall>entries. resp3 = WasmMap entries \<longrightarrow>
              (\<forall>k. k \<noteq> ''direction'' \<longrightarrow> obj k = map_of (rev entries) k))))"
proof (intro conjI impI)
  assume "wasm_createArkadeToEvmSwap client
      (SwapRequest.target_address req1) (SwapRequest.target_amount req1)
      (SwapRequest.target_token req1) net (SwapRequest.referral_code req1) = Inr resp1"
  then have "Client_createArkadeToEvmSwap client req1 net
      = Inr ((fromWasm resp1)(''direction'' \<mapsto> JStr ''btc_to_evm''))"
    by (simp add: Client_createArkadeToEvmSwap_def)
  with tagged_response [OF refl, of resp1 "''btc_to_evm''"]
  show "\<exists>obj. Client_createArkadeToEvmSwap client req1 net = Inr obj \<and>
           obj ''direction'' = Some (JStr ''btc_to_evm'') \<and>
           (\<forall>props. resp1 = WasmObject props \<longrightarrow>
              (\<forall>k. k \<noteq> ''direction'' \<longrightarrow> obj k = props k)) \<and>
           (\<forall>entries. resp1 = WasmMap entries \<longrightarrow>
              (\<forall>k. k \<noteq> ''direction'' \<longrightarrow> obj k = map_of (rev entries) k))"
    by blast
next
  assume "wasm_createEvmToArkadeSwap client
      (EvmToArkadeSwapRequest.target_address req2) (EvmToArkadeSwapRequest.user_address req2)
      (EvmToArkadeSwapRequest.source_amount req2) (EvmToArkadeSwapRequest.source_token req2)
      net (EvmToArkadeSwapRequest.referral_code req2) = Inr resp2"
  then have "Client_createEvmToArkadeSwap client req2 net
      = Inr ((fromWasm resp2)(''direction'' \<mapsto> JStr ''evm_to_btc''))"
    by (simp add: Client_createEvmToArkadeSwap_def)
  with tagged_response [OF refl, of resp2 "''evm_to_btc''"]
  show "\<exists>obj. Client_createEvmToArkadeSwap client req2 net = Inr obj \<and>
           obj ''direction'' = Some (JStr ''evm_to_btc'') \<and>
           (\<forall>props. resp2 = WasmObject props \<longrightarrow>
              (\<forall>k. k \<noteq> ''direction'' \<longrightarrow> obj k = props k)) \<and>
           (\<forall>entries. resp2 = WasmMap entries \<longrightarrow>
              (\<forall>k. k \<noteq> ''direction'' \<longrightarrow> obj k = map_of (rev entries) k))"
    by blast
next
  assume "wasm_createEvmToLightningSwap client
      (EvmToLightningSwapRequest.bolt11_invoice req3)
      (EvmToLightningSwapRequest.user_address req3)
      (EvmToLightningSwapRequest.source_token req3)
      net (EvmToLightningSwapRequest.referral_code req3) = Inr resp3"
  then have "Client_createEvmToLightningSwap client req3 net
      = Inr ((fromWasm resp3)(''direction'' \<mapsto> JStr ''evm_to_btc''))"
    by (simp add: Client_createEvmToLightningSwap_def)
  with tagged_response [OF refl, of resp3 "''evm_to_btc''"]
  show "\<exists>obj. Client_createEvmToLightningSwap client req3 net = Inr obj \<and>
           obj ''direction'' = Some (JStr ''evm_to_btc'') \<and>
           (\<forall>props. resp3 = WasmObject props \<longrightarrow>
              (\<forall>k. k \<noteq> ''direction'' \<longrightarrow> obj k = props k)) \<and>
           (\<forall>entries. resp3 = WasmMap entries \<longrightarrow>
              (\<forall>k. k \<noteq> ''direction'' \<longrightarrow> obj k = map_of (rev entries) k))"
    by blast
qed


lemma read_map_response:
  assumes "\<forall>entries. resp = WasmMap entries \<longrightarrow>
             (\<forall>k. k \<noteq> ''direction'' \<longrightarrow> obj k = map_of (rev entries) k)"
    and "resp = WasmMap es" and "k \<noteq> ''direction''"
  shows "obj k = map_of (rev es) k"
  using assms by simp

lemma read_object_response:
  assumes "\<forall>props. resp = WasmObject props \<longrightarrow>
             (\<forall>k. k \<noteq> ''direction'' \<longrightarrow> obj k = props k)"
    and "resp = WasmObject ps" and "k \<noteq> ''direction''"
  shows "obj k = ps k"
  using assms by simp

lemma sample_response_entries:
  "sample_response = WasmMap [(''id'', JStr ''a''), (''status'', JStr ''pending''),
                              (''direction'', JStr ''sideways'')]"
  by (simp add: sample_response_def)

lemma sample_plain_response_props:
  "sample_plain_response = WasmObject [''id'' \<mapsto> JStr ''a'', ''status'' \<mapsto> JStr ''pending'',
                                       ''direction'' \<mapsto> JStr ''sideways'']"
  by (simp add: sample_plain_response_def)

lemma sample_map_read:
  assumes "\<forall>entries. sample_response = WasmMap entries \<longrightarrow>
             (\<forall>k. k \<noteq> ''direction'' \<longrightarrow> obj k = map_of (rev entries) k)"
  shows "obj ''id'' = Some (JStr ''a'') \<and> obj ''status'' = Some (JStr ''pending'') \<and>
         obj ''fee_sats'' = None"
proof -
  have "obj ''id'' = Some (JStr ''a'')"
    by (simp add: read_map_response [OF assms sample_response_entries])
  moreover have "obj ''status'' = Some (JStr ''pending'')"
    by (simp add: read_map_response [OF assms sample_response_entries])
  moreover have "obj ''fee_sats'' = None"
    by (simp add: read_map_response [OF assms sample_response_entries])
  ultimately show ?thesis by simp
qed

lemma sample_object_read:
  assumes "\<forall>props. sample_plain_response = WasmObject props \<longrightarrow>
             (\<forall>k. k \<noteq> ''direction'' \<longrightarrow> obj k = props k)"
  shows "obj ''id'' = Some (JStr ''a'') \<and> obj ''status'' = Some (JStr ''pending'') \<and>
         obj ''fee_sats'' = None"
proof -
  have "obj ''id'' = Some (JStr ''a'')"
    by (simp add: read_object_response [OF assms sample_plain_response_props])
  moreover have "obj ''status'' = Some (JStr ''pending'')"
    by (simp add: read_object_response [OF assms sample_plain_response_props])
  moreover have "obj ''fee_sats'' = None"
    by (simp add: read_object_response [OF assms sample_plain_response_props])
  ultimately show ?thesis by simp
qed

theorem direction_tag_client_side_witness:
  "(\<exists>obj. Client_createArkadeToEvmSwap sample_client sample_request Polygon = Inr obj \<and>
         obj ''direction'' = Some (JStr ''btc_to_evm'') \<and>
         obj ''id'' = Some (JStr ''a'') \<and> obj ''status'' = Some (JStr ''pending'') \<and>
         obj ''fee_sats'' = None) \<and>
   (\<exists>obj. Client_createEvmToArkadeSwap sample_client sample_arkade_request Polygon = Inr obj \<and>
         obj ''direction'' = Some (JStr ''evm_to_btc'') \<and>
         obj ''id'' = Some (JStr ''a'') \<and> obj ''status'' = Some (JStr ''pending'') \<and>
         obj ''fee_sats'' = None) \<and>
   (\<exists>obj. Client_createEvmToLightningSwap sample_client sample_lightning_request Polygon
           = Inr obj \<and>
         obj ''direction'' = Some (JStr ''evm_to_btc'') \<and>
         obj ''id'' = Some (JStr ''a'') \<and> obj ''status'' = Some (JStr ''pending'') \<and>
         obj ''fee_sats'' = None)"
proof -
  have c1: "wasm_createArkadeToEvmSwap sample_client
      (SwapRequest.target_address sample_request) (SwapRequest.target_amount sample_request)
      (SwapRequest.target_token sample_request) Polygon
      (SwapRequest.referral_code sample_request) = Inr sample_response"
    by (simp add: sample_client_def)
  have c2: "wasm_createEvmToArkadeSwap sample_client
      (EvmToArkadeSwapRequest.target_address sample_arkade_request)
      (EvmToArkadeSwapRequest.user_address sample_arkade_request)
      (EvmToArkadeSwapRequest.source_amount sample_arkade_request)
      (EvmToArkadeSwapRequest.source_token sample_arkade_request)
      Polygon (EvmToArkadeSwapRequest.referral_code sample_arkade_request)
      = Inr sample_plain_response"
    by (simp add: sample_client_def)
  have c3: "wasm_createEvmToLightningSwap sample_client
      (EvmToLightningSwapRequest.bolt11_invoice sample_lightning_request)
      (EvmToLightningSwapRequest.user_address sample_lightning_request)
      (EvmToLightningSwapRequest.source_token sample_lightning_request)
      Polygon (EvmToLightningSwapRequest.referral_code sample_lightning_request)
      = Inr sample_response"
    by (simp add: sample_client_def)
  note all = direction_tag_client_side
      [of sample_client sample_request Polygon sample_response
          sample_arkade_request sample_plain_response
          sample_lightning_request sample_response]
  from all [THEN conjunct1, THEN mp, OF c1] obtain obj1 where
    o1: "Client_createArkadeToEvmSwap sample_client sample_request Polygon = Inr obj1"
    and d1: "obj1 ''direction'' = Some (JStr ''btc_to_evm'')"
    and m1: "\<forall>entries. sample_response = WasmMap entries \<longrightarrow>
               (\<forall>k. k \<noteq> ''direction'' \<longrightarrow> obj1 k = map_of (rev entries) k)"
    by (elim exE conjE)
  from all [THEN conjunct2, THEN conjunct1, THEN mp, OF c2] obtain obj2 where
    o2: "Client_createEvmToArkadeSwap sample_client sample_arkade_request Polygon = Inr obj2"
    and d2: "obj2 ''direction'' = Some (JStr ''evm_to_btc'')"
    and m2: "\<forall>props. sample_plain_response = WasmObject props \<longrightarrow>
               (\<forall>k. k \<noteq> ''direction'' \<longrightarrow> obj2 k = props k)"
    by (elim exE conjE)
  from all [THEN conjunct2, THEN conjunct2, THEN mp, OF c3] obtain obj3 where
    o3: "Client_createEvmToLightningSwap sample_client sample_lightning_request Polygon
           = Inr obj3"
    and d3: "obj3 ''direction'' = Some (JStr ''evm_to_btc'')"
    and m3: "\<forall>entries. sample_response = WasmMap entries \<longrightarrow>
               (\<forall>k. k \<noteq> ''direction'' \<longrightarrow> obj3 k = map_of (rev entries) k)"
    by (elim exE conjE)
  show ?thesis
  proof (intro conjI)
    show "\<exists>obj. Client_createArkadeToEvmSwap sample_client sample_request Polygon = Inr obj \<and>
         obj ''direction'' = Some (JStr ''btc_to_evm'') \<and>
         obj ''id'' = Some (JStr ''a'') \<and> obj ''status'' = Some (JStr ''pending'') \<and>
         obj ''fee_sats'' = None"
      using o1 d1 sample_map_read [OF m1] by (intro exI [of _ obj1]) simp
    show "\<exists>obj. Client_createEvmToArkadeSwap sample_client sample_arkade_request Polygon = Inr obj \<and>
         obj ''direction'' = Some (JStr ''evm_to_btc'') \<and>
         obj ''id'' = Some (JStr ''a'') \<and> obj ''status'' = Some (JStr ''pending'') \<and>
         obj ''fee_sats'' = None"
      using o2 d2 sample_object_read [OF m2] by (intro exI [of _ obj2]) simp
    show "\<exists>obj. Client_createEvmToLightningSwap sample_client sample_lightning_request Polygon
           = Inr obj \<and>
         obj ''direction'' = Some (JStr ''evm_to_btc'') \<and>
         obj ''id'' = Some (JStr ''a'') \<and> obj ''status'' = Some (JStr ''pending'') \<and>
         obj ''fee_sats'' = None"
      using o3 d3 sample_map_read [OF m3] by (intro exI [of _ obj3]) simp
  qed
qed

section \<open>Properties of the permission predicates\<close>

lemma find_wire: "find (\<lambda>s. SwapStatus_wire s = SwapStatus_wire t) SwapStatus_members = Some t"
  by (cases t) (simp_all add: SwapStatus_members_def)

lemma parse_wire: "parseSwapStatus (SwapStatus_wire s) = Inr s"
  by (simp add: parseSwapStatus_def find_wire)

lemma parse_Inr: "parseSwapStatus w = Inr s \<Longrightarrow> w = SwapStatus_wire s"
  unfolding parseSwapStatus_def
  by (auto split: option.splits dest: find_Some_iff [THEN iffD1])

lemma canClaim_iff: "canClaim s \<longleftrightarrow> s = ServerFunded"
  by (cases s) simp_all

lemma client_leg_funded_iff:
  "client_leg_funded s \<longleftrightarrow>
   s = ClientFunded \<or> s = ClientFundedServerRefunded \<or> s = ClientFundedTooLate"
  by (cases s) simp_all

text \<open>
  Claim C1. For every recognized state, \<open>canClaim\<close> holds exactly for \<open>serverfunded\<close>, and
  \<open>canRefund\<close> holds exactly when the state is one of \<open>clientfunded\<close>,
  \<open>clientfundedserverrefunded\<close>, \<open>clientfundedtoolate\<close> and the current time has reached
  the refund locktime. The same holds on wire strings, where an unrecognized string
  never yields \<open>true\<close>.
\<close>

theorem permission_truth_tables:
  "(canClaim s \<longleftrightarrow> s = ServerFunded) \<and>
   (canRefund s now L \<longleftrightarrow>
      (s = ClientFunded \<or> s = ClientFundedServerRefunded \<or> s = ClientFundedTooLate)
      \<and> L \<le> now) \<and>
   (canClaim_wire w = Inr True \<longleftrightarrow> w = ''serverfunded'') \<and>
   (canRefund_wire w now L = Inr True \<longleftrightarrow>
      (w = ''clientfunded'' \<or> w = ''clientfundedserverrefunded'' \<or> w = ''clientfundedtoolate'')
      \<and> L \<le> now)"
proof -
  have claim_wire: "canClaim_wire w = Inr True \<longleftrightarrow> w = ''serverfunded''"
  proof
    assume "canClaim_wire w = Inr True"
    then obtain t where "parseSwapStatus w = Inr t" and "canClaim t"
      by (auto simp: canClaim_wire_def split: sum.splits)
    then show "w = ''serverfunded''"
      using parse_Inr [of w t] by (simp add: canClaim_iff)
  next
    assume "w = ''serverfunded''"
    then have "w = SwapStatus_wire ServerFunded" by simp
    then show "canClaim_wire w = Inr True"
      by (simp only: canClaim_wire_def parse_wire) simp
  qed
  have refund_wire: "canRefund_wire w now L = Inr True \<longleftrightarrow>
      (w = ''clientfunded'' \<or> w = ''clientfundedserverrefunded'' \<or> w = ''clientfundedtoolate'')
      \<and> L \<le> now"
  proof
    assume "canRefund_wire w now L = Inr True"
    then obtain t where t: "parseSwapStatus w = Inr t" and r: "canRefund t now L"
      by (auto simp: canRefund_wire_def split: sum.splits)
    from r have "t = ClientFunded \<or> t = ClientFundedServerRefunded \<or> t = ClientFundedTooLate"
      and "L \<le> now"
      by (simp_all add: canRefund_def client_leg_funded_iff)
    with parse_Inr [OF t] show "(w = ''clientfunded'' \<or> w = ''clientfundedserverrefunded''
        \<or> w = ''clientfundedtoolate'') \<and> L \<le> now"
      by auto
  next
    assume a: "(w = ''clientfunded'' \<or> w = ''clientfundedserverrefunded''
        \<or> w = ''clientfundedtoolate'') \<and> L \<le> now"
    then have "w = SwapStatus_wire ClientFunded \<or> w = SwapStatus_wire ClientFundedServerRefunded
       \<or> w = SwapStatus_wire ClientFundedTooLate" by simp
    then obtain t where w: "w = SwapStatus_wire t" and "client_leg_funded t"
      by (auto simp del: SwapStatus_wire.simps)
    with a show "canRefund_wire w now L = Inr True"
      by (simp only: canRefund_wire_def parse_wire w) (simp add: canRefund_def)
  qed
  show ?thesis
    using claim_wire refund_wire
    by (simp only: canClaim_iff canRefund_def client_leg_funded_iff simp_thms)
qed

theorem permission_truth_tables_witness:
  "canClaim_wire ''serverfunded'' = Inr True \<and>
   canClaim_wire ''pending'' \<noteq> Inr True \<and>
   canRefund_wire ''clientfunded'' 100 99 = Inr True \<and>
   canRefund_wire ''clientfunded'' 100 101 \<noteq> Inr True \<and>
   canRefund_wire ''clientfundedserverrefunded'' 100 99 = Inr True \<and>
   canClaim_wire ''ServerFunded'' \<noteq> Inr True"
  using permission_truth_tables [of ServerFunded 100 99 "''serverfunded''"]
        permission_truth_tables [of Pending 100 99 "''pending''"]
        permission_truth_tables [of ClientFunded 100 99 "''clientfunded''"]
        permission_truth_tables [of ClientFunded 100 101 "''clientfunded''"]
        permission_truth_tables [of ClientFunded 100 99 "''clientfundedserverrefunded''"]
        permission_truth_tables [of ServerFunded 100 99 "''ServerFunded''"]
  by simp


section \<open>Properties of the index counter\<close>

lemma derive_keyIndex: "derive P seed i = Inr p \<Longrightarrow> SwapParams.keyIndex p = i"
  by (auto simp: derive_def split: if_splits)

lemma deriveSwapParams_no_mnemonic:
  "DexieWalletStorageProvider_getMnemonic db = None \<Longrightarrow>
   deriveSwapParams P db = (Inl NoMnemonic, db)"
  by (simp add: deriveSwapParams_def)

lemma deriveSwapParams_mnemonic:
  "DexieWalletStorageProvider_getMnemonic db = Some seed \<Longrightarrow>
   deriveSwapParams P db =
     (derive P seed (DexieWalletStorageProvider_getKeyIndex db),
      DexieWalletStorageProvider_setKeyIndex (DexieWalletStorageProvider_getKeyIndex db + 1) db)"
  by (simp add: deriveSwapParams_def reserveNextIndex_def Let_def)

lemma deriveSwapParams_step:
  assumes "deriveSwapParams P db = (r, db')"
  shows "DexieWalletStorageProvider_getKeyIndex db \<le> DexieWalletStorageProvider_getKeyIndex db'"
    and "DexieWalletStorageProvider_getMnemonic db' = DexieWalletStorageProvider_getMnemonic db"
    and "r = Inr p \<Longrightarrow>
           SwapParams.keyIndex p = DexieWalletStorageProvider_getKeyIndex db \<and>
           SwapParams.keyIndex p < DexieWalletStorageProvider_getKeyIndex db'"
proof -
  show "DexieWalletStorageProvider_getKeyIndex db \<le> DexieWalletStorageProvider_getKeyIndex db'"
  proof (cases "DexieWalletStorageProvider_getMnemonic db")
    case None
    with assms show ?thesis by (simp add: deriveSwapParams_no_mnemonic)
  next
    case (Some seed)
    with assms show ?thesis
      by (auto simp: deriveSwapParams_mnemonic getKeyIndex_setKeyIndex)
  qed
  show "DexieWalletStorageProvider_getMnemonic db' = DexieWalletStorageProvider_getMnemonic db"
  proof (cases "DexieWalletStorageProvider_getMnemonic db")
    case None
    with assms show ?thesis by (simp add: deriveSwapParams_no_mnemonic)
  next
    case (Some seed)
    with assms show ?thesis
      by (auto simp: deriveSwapParams_mnemonic getMnemonic_setKeyIndex)
  qed
  show "SwapParams.keyIndex p = DexieWalletStorageProvider_getKeyIndex db \<and>
        SwapParams.keyIndex p < DexieWalletStorageProvider_getKeyIndex db'" if "r = Inr p"
  proof (cases "DexieWalletStorageProvider_getMnemonic db")
    case None
    with assms that show ?thesis by (simp add: deriveSwapParams_no_mnemonic)
  next
    case (Some seed)
    with assms that show ?thesis
      by (auto simp: deriveSwapParams_mnemonic getKeyIndex_setKeyIndex dest: derive_keyIndex)
  qed
qed

lemma issued_append: "issued (rs @ rs') = issued rs @ issued rs'"
  by (induction rs rule: issued.induct) simp_all

lemma within_Nil: "within db [] db"
  by (simp add: within_def)

lemma within_append:
  assumes "within db rs db'" and "within db' rs' db''"
  shows "within db (rs @ rs') db''"
  using assms unfolding within_def issued_append sorted_wrt_append
  by fastforce

lemma within_step: "deriveSwapParams P db = (r, db') \<Longrightarrow> within db [r] db'"
proof -
  assume a: "deriveSwapParams P db = (r, db')"
  show ?thesis
  proof (cases r)
    case (Inl e)
    with deriveSwapParams_step(1,2) [OF a] show ?thesis by (simp add: within_def)
  next
    case (Inr p)
    with deriveSwapParams_step(1,2) [OF a] deriveSwapParams_step(3) [OF a Inr]
    show ?thesis by (simp add: within_def)
  qed
qed

lemma within_derive_many: "derive_many P n db = (rs, db') \<Longrightarrow> within db rs db'"
proof (induction n arbitrary: db rs db')
  case 0
  then show ?case by (simp add: within_Nil)
next
  case (Suc n)
  obtain r db1 where step: "deriveSwapParams P db = (r, db1)" by (cases "deriveSwapParams P db")
  obtain rs1 db2 where rest: "derive_many P n db1 = (rs1, db2)" by (cases "derive_many P n db1")
  from Suc.prems step rest have "rs = [r] @ rs1" and "db' = db2" by simp_all
  with within_append [OF within_step [OF step] Suc.IH [OF rest]] show ?case by simp
qed

lemma within_run_sessions: "run_sessions P ns db = (rs, db') \<Longrightarrow> within db rs db'"
proof (induction ns arbitrary: db rs db')
  case Nil
  then show ?case by (simp add: within_Nil)
next
  case (Cons n ns)
  obtain rs1 db1 where first: "derive_many P n db = (rs1, db1)" by (cases "derive_many P n db")
  obtain rs2 db2 where rest: "run_sessions P ns db1 = (rs2, db2)"
    by (cases "run_sessions P ns db1")
  from Cons.prems first rest have "rs = rs1 @ rs2" and "db' = db2" by simp_all
  with within_append [OF within_derive_many [OF first] Cons.IH [OF rest]] show ?case by simp
qed

lemma sorted_less_distinct: "sorted_wrt (<) (xs :: int list) \<Longrightarrow> distinct xs"
  by (induction xs) auto

lemma derive_many_fresh:
  assumes "DexieWalletStorageProvider_getMnemonic db = Some seed" and "valid_seed P seed"
    and "0 \<le> DexieWalletStorageProvider_getKeyIndex db"
    and "DexieWalletStorageProvider_getKeyIndex db + int n \<le> 2 ^ 31"
  shows "issued (fst (derive_many P n db))
           = map (\<lambda>k. DexieWalletStorageProvider_getKeyIndex db + int k) [0..<n]"
  using assms
proof (induction n arbitrary: db)
  case 0
  then show ?case by simp
next
  case (Suc n)
  let ?c = "DexieWalletStorageProvider_getKeyIndex db"
  let ?db1 = "DexieWalletStorageProvider_setKeyIndex (?c + 1) db"
  have step: "deriveSwapParams P db = (derive P seed ?c, ?db1)"
    using Suc.prems(1) by (rule deriveSwapParams_mnemonic)
  from Suc.prems obtain p where p: "derive P seed ?c = Inr p"
    by (auto simp: derive_def)
  then have kp: "SwapParams.keyIndex p = ?c" by (rule derive_keyIndex)
  have m1: "DexieWalletStorageProvider_getMnemonic ?db1 = Some seed"
    using Suc.prems(1) by (simp add: getMnemonic_setKeyIndex)
  have c1: "DexieWalletStorageProvider_getKeyIndex ?db1 = ?c + 1"
    by (rule getKeyIndex_setKeyIndex)
  have "issued (fst (derive_many P n ?db1))
          = map (\<lambda>k. DexieWalletStorageProvider_getKeyIndex ?db1 + int k) [0..<n]"
    using Suc.prems by (intro Suc.IH m1) (simp_all add: c1)
  then have rest: "issued (fst (derive_many P n ?db1)) = map (\<lambda>k. ?c + 1 + int k) [0..<n]"
    by (simp only: c1)
  have "issued (fst (derive_many P (Suc n) db)) = ?c # issued (fst (derive_many P n ?db1))"
    by (simp add: step p kp split: prod.splits)
  also have "\<dots> = ?c # map (\<lambda>k. ?c + 1 + int k) [0..<n]" by (simp only: rest)
  also have "\<dots> = map (\<lambda>k. ?c + int k) [0..<Suc n]"
    by (simp add: upt_conv_Cons map_Suc_upt [symmetric] del: upt_Suc)
  finally show ?case .
qed

lemma derive_many_add:
  "derive_many P (a + b) db =
     (case derive_many P a db of
        (rs, db') \<Rightarrow> (case derive_many P b db' of (rs', db'') \<Rightarrow> (rs @ rs', db'')))"
  by (induction a arbitrary: db) (simp_all split: prod.splits)

lemma run_sessions_flat: "run_sessions P ns db = derive_many P (sum_list ns) db"
  by (induction ns arbitrary: db) (simp_all add: derive_many_add split: prod.splits)

text \<open>
  Claim C2. Over any sequence of sessions on the same wallet storage, each session a
  run of \<open>deriveSwapParams\<close> calls that starts from the persisted counter, the key indices
  of the returned bundles are strictly increasing, so none is issued twice. From fresh
  storage with a valid mnemonic they are \<open>0, 1, 2, \<dots>\<close> while the indices stay in the
  supported range.
\<close>

theorem index_reservation_monotone:
  "sorted_wrt (<) (issued (fst (run_sessions P ns db))) \<and>
   distinct (issued (fst (run_sessions P ns db))) \<and>
   (valid_seed P m \<and> int (sum_list ns) \<le> 2 ^ 31 \<longrightarrow>
      issued (fst (run_sessions P ns (importMnemonic m []))) = map int [0..<sum_list ns])"
proof -
  have w: "within db (fst (run_sessions P ns db)) (snd (run_sessions P ns db))"
    by (rule within_run_sessions) simp
  then have s: "sorted_wrt (<) (issued (fst (run_sessions P ns db)))"
    by (simp add: within_def)
  have "issued (fst (run_sessions P ns (importMnemonic m []))) = map int [0..<sum_list ns]"
    if "valid_seed P m" and "int (sum_list ns) \<le> 2 ^ 31"
  proof -
    have "issued (fst (derive_many P (sum_list ns) (importMnemonic m [])))
        = map (\<lambda>k. DexieWalletStorageProvider_getKeyIndex (importMnemonic m []) + int k)
            [0..<sum_list ns]"
      using that
      by (intro derive_many_fresh [where seed = m])
         (simp_all add: importMnemonic_def getMnemonic_setMnemonic getKeyIndex_setMnemonic
            getKeyIndex_empty)
    then show ?thesis
      by (simp add: run_sessions_flat importMnemonic_def getKeyIndex_setMnemonic
            getKeyIndex_empty)
  qed
  with s sorted_less_distinct [OF s] show ?thesis by blast
qed

theorem index_reservation_monotone_witness:
  "issued (fst (run_sessions sample_primitives [2, 1] (importMnemonic ''abandon'' [])))
     = [0, 1, 2]"
proof -
  have "valid_seed sample_primitives ''abandon'' \<and> int (sum_list [2, 1]) \<le> 2 ^ 31"
    by (simp add: sample_primitives_def)
  with index_reservation_monotone [of sample_primitives "[2, 1]" "[]" "''abandon''"]
  have "issued (fst (run_sessions sample_primitives [2, 1] (importMnemonic ''abandon'' [])))
     = map int [0..<sum_list [2, 1]]"
    by blast
  also have "map int [0..<sum_list [2, 1]] = [0, 1, 2]"
    by (simp add: upt_conv_Cons)
  finally show ?thesis .
qed


section \<open>Properties of recovery\<close>

lemma getKeyIndex_setFloor:
  "DexieWalletStorageProvider_getKeyIndex (setFloor n db)
     = max (DexieWalletStorageProvider_getKeyIndex db) n"
  by (simp add: setFloor_def getKeyIndex_setKeyIndex)

text \<open>
  Claim C5. A successful \<open>recoverSwaps\<close> leaves the counter at the maximum of its previous
  value and the backend's highest index plus one; the counter is therefore at least
  that index plus one and never lower than before.
\<close>

theorem recovery_raises_counter:
  assumes "recoverSwaps P backend st = Inr (ds, st')"
  shows "\<exists>seed resp.
           DexieWalletStorageProvider_getMnemonic (wallet st) = Some seed \<and>
           backend (identity_key P seed) = Inr resp \<and>
           DexieWalletStorageProvider_getKeyIndex (wallet st')
             = max (DexieWalletStorageProvider_getKeyIndex (wallet st)) (highest_index resp + 1) \<and>
           highest_index resp + 1 \<le> DexieWalletStorageProvider_getKeyIndex (wallet st') \<and>
           DexieWalletStorageProvider_getKeyIndex (wallet st)
             \<le> DexieWalletStorageProvider_getKeyIndex (wallet st')"
proof -
  from assms obtain seed resp db' where
    seed: "DexieWalletStorageProvider_getMnemonic (wallet st) = Some seed" and
    resp: "backend (identity_key P seed) = Inr resp" and
    st': "st' = \<lparr>wallet = setFloor (highest_index resp + 1) (wallet st), swap_store = db'\<rparr>"
    by (auto simp: recoverSwaps_def split: option.splits sum.splits prod.splits)
  from st' have "DexieWalletStorageProvider_getKeyIndex (wallet st')
      = max (DexieWalletStorageProvider_getKeyIndex (wallet st)) (highest_index resp + 1)"
    by (simp add: getKeyIndex_setFloor)
  with seed resp show ?thesis by auto
qed

lemma sample_state_wallet:
  "DexieWalletStorageProvider_getMnemonic (wallet sample_state) = Some ''abandon''"
  "DexieWalletStorageProvider_getKeyIndex (wallet sample_state) = 3"
  by (simp_all add: sample_state_def importMnemonic_def getMnemonic_setKeyIndex
        getMnemonic_setMnemonic getKeyIndex_setKeyIndex)

lemma sample_state_store: "swap_store sample_state = []"
  by (simp add: sample_state_def)

lemma sample_recovery_succeeds:
  "\<exists>ds st'. recoverSwaps sample_primitives sample_backend sample_state = Inr (ds, st')"
proof -
  obtain p where p: "derive sample_primitives ''abandon'' 7 = Inr p"
    by (simp add: derive_def sample_primitives_def)
  have "write_recovered sample_primitives ''abandon'' (swaps sample_history) []
      = Inr ([extended_swap_data [''id'' \<mapsto> JStr ''a'', ''status'' \<mapsto> JStr ''expired''] p],
             tbl_put (KStr ''a'')
               ([''id'' \<mapsto> JStr ''a''] ++
                extended_swap_data [''id'' \<mapsto> JStr ''a'', ''status'' \<mapsto> JStr ''expired''] p) [])"
    by (simp add: sample_history_def p store_without_id extended_swap_data_def)
  then show ?thesis
    by (simp add: recoverSwaps_def sample_state_wallet sample_backend_def sample_state_store)
qed

theorem recovery_raises_counter_witness:
  "\<exists>ds st'. recoverSwaps sample_primitives sample_backend sample_state = Inr (ds, st') \<and>
     DexieWalletStorageProvider_getKeyIndex (wallet sample_state) = 3 \<and>
     DexieWalletStorageProvider_getKeyIndex (wallet st') = 8"
proof -
  from sample_recovery_succeeds obtain ds st' where
    r: "recoverSwaps sample_primitives sample_backend sample_state = Inr (ds, st')"
    by blast
  from recovery_raises_counter [OF r] obtain seed resp where
    b: "sample_backend (identity_key sample_primitives seed) = Inr resp" and
    k: "DexieWalletStorageProvider_getKeyIndex (wallet st')
       = max (DexieWalletStorageProvider_getKeyIndex (wallet sample_state)) (highest_index resp + 1)"
    by blast
  from b have "resp = sample_history" by (simp add: sample_backend_def)
  with k have "DexieWalletStorageProvider_getKeyIndex (wallet st') = 8"
    by (simp add: sample_history_def sample_state_wallet)
  with r sample_state_wallet(2) show ?thesis by blast
qed


end
